theory Spec2Isabelle
  imports Main "HOL-Library.Word" "HOL-Library.Sublist"
begin

unbundle bit_operations_syntax

section \<open>Values of the JavaScript runtime\<close>

subsection \<open>Strings\<close>

text \<open>
  A JavaScript string is modelled as a \<^typ>\<open>string\<close>; every character is one code unit in
  the Latin-1 range. \<open>str_includes\<close> is \<open>String.prototype.includes\<close>, \<open>split_on\<close> is
  \<open>String.prototype.split\<close> with a one-character separator, \<open>js_index\<close> is an array read,
  whose value is \<open>undefined\<close> (\<open>None\<close>) outside the array, and \<open>join\<close> is
  \<open>Array.prototype.join\<close> on strings.
\<close>

fun str_includes :: "string \<Rightarrow> string \<Rightarrow> bool" where
  "str_includes [] t = (t = [])"
| "str_includes (c # cs) t = (prefix t (c # cs) \<or> str_includes cs t)"

definition startsWith :: "string \<Rightarrow> string \<Rightarrow> bool" where
  "startsWith s t = prefix t s"

definition endsWith :: "string \<Rightarrow> string \<Rightarrow> bool" where
  "endsWith s t = prefix (rev t) (rev s)"

fun split_on :: "char \<Rightarrow> string \<Rightarrow> string list" where
  "split_on sep [] = [[]]"
| "split_on sep (c # cs) =
     (if c = sep then [] # split_on sep cs
      else (case split_on sep cs of
              [] \<Rightarrow> [[c]]
            | f # fs \<Rightarrow> (c # f) # fs))"

definition js_index :: "'a list \<Rightarrow> nat \<Rightarrow> 'a option" where
  "js_index xs i = (if i < length xs then Some (xs ! i) else None)"

fun join :: "string \<Rightarrow> string list \<Rightarrow> string" where
  "join sep [] = []"
| "join sep [x] = x"
| "join sep (x # y # ys) = x @ sep @ join sep (y # ys)"

text \<open>Decimal digits of a number; the fuel \<open>Suc n\<close> is more than the number of digits.\<close>

fun digits_of :: "nat \<Rightarrow> nat \<Rightarrow> string" where
  "digits_of 0 n = []"
| "digits_of (Suc fuel) n =
     (if n < 10 then [char_of (48 + n)]
      else digits_of fuel (n div 10) @ [char_of (48 + n mod 10)])"

definition show_nat :: "nat \<Rightarrow> string" where
  "show_nat n = digits_of (Suc n) n"

definition show_int :: "int \<Rightarrow> string" where
  "show_int i = (if i < 0 then CHR ''-'' # show_nat (nat (- i)) else show_nat (nat i))"

text \<open>
  The character classes of the regular expressions and of \<open>trim\<close>: \<open>\s\<close> (white space and
  line ends, here those below U+0100), \<open>[0-9]\<close> and \<open>\w\<close>.
\<close>

definition is_space :: "char \<Rightarrow> bool" where
  "is_space c \<longleftrightarrow>
     c \<in> set [CHR 0x09, CHR 0x0A, CHR 0x0B, CHR 0x0C, CHR 0x0D, CHR 0x20, CHR 0xA0]"

definition is_digit :: "char \<Rightarrow> bool" where
  "is_digit c \<longleftrightarrow> c \<in> set ''0123456789''"

definition is_word_char :: "char \<Rightarrow> bool" where
  "is_word_char c \<longleftrightarrow>
     c \<in> set ''abcdefghijklmnopqrstuvwxyzABCDEFGHIJKLMNOPQRSTUVWXYZ0123456789_''"

definition trim :: "string \<Rightarrow> string" where
  "trim s = rev (dropWhile is_space (rev (dropWhile is_space s)))"

subsection \<open>Values, property reads, truthiness, conversion to a string\<close>

text \<open>
  The values that reach this program from \<open>JSON.parse\<close> and from \<open>axios\<close>, and \<open>undefined\<close>.
  Numbers are the integral ones. An object is the list of its own properties in the order the
  runtime enumerates them; a well-formed object has no key twice.
\<close>

datatype js_value =
    JUndefined
  | JNull
  | JBool bool
  | JNum int
  | JStr string
  | JArr "js_value list"
  | JObj "(string \<times> js_value) list"

type_synonym js_props = "(string \<times> js_value) list"

datatype js_error =
    Error string     \<comment> \<open>\<open>throw new Error(message)\<close>\<close>
  | TypeError        \<comment> \<open>a property read on \<open>undefined\<close> or \<open>null\<close>\<close>
  | NetworkError     \<comment> \<open>a rejected \<open>axios.post\<close>\<close>

text \<open>
  \<open>value.key\<close>, for the keys this program reads (\<open>authToken\<close>, \<open>token\<close>, \<open>data\<close>,
  \<open>expoPushToken\<close>): none of them is a property of a built-in prototype, so only an object
  can have one.
\<close>

fun js_get :: "js_value \<Rightarrow> string \<Rightarrow> js_error + js_value" where
  "js_get JUndefined k = Inl TypeError"
| "js_get JNull k = Inl TypeError"
| "js_get (JObj kvs) k = Inr (case map_of kvs k of None \<Rightarrow> JUndefined | Some v \<Rightarrow> v)"
| "js_get v k = Inr JUndefined"

fun truthy :: "js_value \<Rightarrow> bool" where
  "truthy JUndefined = False"
| "truthy JNull = False"
| "truthy (JBool b) = b"
| "truthy (JNum n) = (n \<noteq> 0)"
| "truthy (JStr s) = (s \<noteq> [])"
| "truthy (JArr xs) = True"
| "truthy (JObj kvs) = True"

text \<open>The conversion a template literal applies to an interpolated value.\<close>

fun to_string :: "js_value \<Rightarrow> string"
  and element_strings :: "js_value list \<Rightarrow> string list" where
  "to_string JUndefined = ''undefined''"
| "to_string JNull = ''null''"
| "to_string (JBool b) = (if b then ''true'' else ''false'')"
| "to_string (JNum n) = show_int n"
| "to_string (JStr s) = s"
| "to_string (JArr xs) = join '','' (element_strings xs)"
| "to_string (JObj kvs) = ''[object Object]''"
| "element_strings [] = []"
| "element_strings (x # xs) =
     (if x = JUndefined \<or> x = JNull then [] else to_string x) # element_strings xs"

subsection \<open>\<open>JSON.stringify(value, null, space)\<close>\<close>

definition hex_digit :: "nat \<Rightarrow> char" where
  "hex_digit n = (if n < 10 then char_of (48 + n) else char_of (87 + n))"

definition quote_char :: "char \<Rightarrow> string" where
  "quote_char c =
     (if c = CHR 0x22 then [CHR 0x5C, CHR 0x22]
      else if c = CHR 0x5C then [CHR 0x5C, CHR 0x5C]
      else if c = CHR 0x08 then [CHR 0x5C, CHR ''b'']
      else if c = CHR 0x09 then [CHR 0x5C, CHR ''t'']
      else if c = CHR 0x0A then [CHR 0x5C, CHR ''n'']
      else if c = CHR 0x0C then [CHR 0x5C, CHR ''f'']
      else if c = CHR 0x0D then [CHR 0x5C, CHR ''r'']
      else if (of_char c :: nat) < 32 then
        [CHR 0x5C, CHR ''u'', CHR ''0'', CHR ''0'',
         hex_digit (of_char c div 16), hex_digit (of_char c mod 16)]
      else [c])"

definition quote_json :: "string \<Rightarrow> string" where
  "quote_json s = [CHR 0x22] @ concat (map quote_char s) @ [CHR 0x22]"

text \<open>
  The serialisation of the language standard, with \<open>gap\<close> the indentation unit and \<open>indent\<close>
  the current indentation. A property whose value is \<open>undefined\<close> is left out of an object
  and written \<open>null\<close> in an array.
\<close>

fun serialize :: "string \<Rightarrow> string \<Rightarrow> js_value \<Rightarrow> string option"
  and serialize_members :: "string \<Rightarrow> string \<Rightarrow> js_props \<Rightarrow> string list"
  and serialize_elements :: "string \<Rightarrow> string \<Rightarrow> js_value list \<Rightarrow> string list" where
  "serialize gap indent JUndefined = None"
| "serialize gap indent JNull = Some ''null''"
| "serialize gap indent (JBool b) = Some (if b then ''true'' else ''false'')"
| "serialize gap indent (JNum n) = Some (show_int n)"
| "serialize gap indent (JStr s) = Some (quote_json s)"
| "serialize gap indent (JArr xs) =
     (let stepback = indent; indent = indent @ gap;
          partial = serialize_elements gap indent xs
      in if partial = [] then Some ''[]''
         else if gap = [] then Some (''['' @ join '','' partial @ '']'')
         else Some (''['' @ [CHR 0x0A] @ indent @ join ('','' @ [CHR 0x0A] @ indent) partial @
                    [CHR 0x0A] @ stepback @ '']''))"
| "serialize gap indent (JObj kvs) =
     (let stepback = indent; indent = indent @ gap;
          partial = serialize_members gap indent kvs
      in if partial = [] then Some ''{}''
         else if gap = [] then Some (''{'' @ join '','' partial @ ''}'')
         else Some (''{'' @ [CHR 0x0A] @ indent @ join ('','' @ [CHR 0x0A] @ indent) partial @
                    [CHR 0x0A] @ stepback @ ''}''))"
| "serialize_members gap indent [] = []"
| "serialize_members gap indent ((k, v) # kvs) =
     (case serialize gap indent v of
        None \<Rightarrow> serialize_members gap indent kvs
      | Some str \<Rightarrow>
          (quote_json k @ '':'' @ (if gap = [] then [] else '' '') @ str) #
          serialize_members gap indent kvs)"
| "serialize_elements gap indent [] = []"
| "serialize_elements gap indent (x # xs) =
     (case serialize gap indent x of
        None \<Rightarrow> ''null''
      | Some str \<Rightarrow> str) # serialize_elements gap indent xs"


subsection \<open>Object spread\<close>






section \<open>InstallationClient: \<open>AndroidFCM.generateFirebaseFID\<close> and \<open>installRequest\<close>\<close>

type_synonym byte = "8 word"
type_synonym sextet = "6 word"

text \<open>\<open>Buffer.prototype.toString("base64")\<close>: three bytes give four characters, padded with \<open>=\<close>.\<close>

definition b64_alphabet :: string where
  "b64_alphabet = ''ABCDEFGHIJKLMNOPQRSTUVWXYZabcdefghijklmnopqrstuvwxyz0123456789+/''"

definition b64_char :: "sextet \<Rightarrow> char" where
  "b64_char s = b64_alphabet ! unat s"

fun base64_encode :: "byte list \<Rightarrow> string" where
  "base64_encode [] = []"
| "base64_encode [a] =
     [b64_char (ucast (drop_bit 2 a)), b64_char (push_bit 4 (ucast a)), CHR ''='', CHR ''='']"
| "base64_encode [a, b] =
     [b64_char (ucast (drop_bit 2 a)),
      b64_char (push_bit 4 (ucast a) OR ucast (drop_bit 4 b)),
      b64_char (push_bit 2 (ucast b)), CHR ''='']"
| "base64_encode (a # b # c # rest) =
     [b64_char (ucast (drop_bit 2 a)),
      b64_char (push_bit 4 (ucast a) OR ucast (drop_bit 4 b)),
      b64_char (push_bit 2 (ucast b) OR ucast (drop_bit 6 c)),
      b64_char (ucast c)] @ base64_encode rest"

text \<open>
  \<open>buf\<close> is the result of \<open>crypto.randomBytes(17)\<close>. The first byte keeps its low four bits
  under the header \<open>0b0111\<close>; \<open>replace(/=/g, "")\<close> removes every \<open>=\<close>.
\<close>

definition generateFirebaseFID :: "byte list \<Rightarrow> string" where
  "generateFirebaseFID buf =
     (let buf = buf[0 := 0x70 OR (buf ! 0 AND 0x0F)]
      in filter (\<lambda>c. c \<noteq> CHR ''='') (base64_encode buf))"

text \<open>
  Reading base64 back, as \<open>Buffer.from(text, "base64")\<close> does for a text over the alphabet,
  padded or not: the text ends at the first \<open>=\<close>, four characters give three bytes, and a
  tail of three or two characters gives two bytes or one. The program itself never decodes;
  this is the reading by which the identifier is judged.
\<close>

fun index_of :: "'a \<Rightarrow> 'a list \<Rightarrow> nat option" where
  "index_of x [] = None"
| "index_of x (y # ys) = (if x = y then Some 0 else map_option Suc (index_of x ys))"

definition b64_index :: "char \<Rightarrow> sextet option" where
  "b64_index c = map_option of_nat (index_of c b64_alphabet)"

fun sextets_of :: "string \<Rightarrow> sextet list option" where
  "sextets_of [] = Some []"
| "sextets_of (c # cs) =
     (case b64_index c of
        None \<Rightarrow> None
      | Some s \<Rightarrow> map_option ((#) s) (sextets_of cs))"

fun bytes_of_sextets :: "sextet list \<Rightarrow> byte list" where
  "bytes_of_sextets (s0 # s1 # s2 # s3 # rest) =
     [push_bit 2 (ucast s0) OR ucast (drop_bit 4 s1),
      push_bit 4 (ucast s1) OR ucast (drop_bit 2 s2),
      push_bit 6 (ucast s2) OR ucast s3] @ bytes_of_sextets rest"
| "bytes_of_sextets [s0, s1, s2] =
     [push_bit 2 (ucast s0) OR ucast (drop_bit 4 s1),
      push_bit 4 (ucast s1) OR ucast (drop_bit 2 s2)]"
| "bytes_of_sextets [s0, s1] = [push_bit 2 (ucast s0) OR ucast (drop_bit 4 s1)]"
| "bytes_of_sextets _ = []"

definition base64_decode :: "string \<Rightarrow> byte list option" where
  "base64_decode s =
     map_option bytes_of_sextets (sextets_of (takeWhile (\<lambda>c. c \<noteq> CHR ''='') s))"

text \<open>The sextets that \<open>base64_encode\<close> writes, without the padding (used in the proofs).\<close>

fun to_sextets :: "byte list \<Rightarrow> sextet list" where
  "to_sextets [] = []"
| "to_sextets [a] = [ucast (drop_bit 2 a), push_bit 4 (ucast a)]"
| "to_sextets [a, b] =
     [ucast (drop_bit 2 a), push_bit 4 (ucast a) OR ucast (drop_bit 4 b), push_bit 2 (ucast b)]"
| "to_sextets (a # b # c # rest) =
     [ucast (drop_bit 2 a), push_bit 4 (ucast a) OR ucast (drop_bit 4 b),
      push_bit 2 (ucast b) OR ucast (drop_bit 6 c), ucast c] @ to_sextets rest"

text \<open>
  \<open>installRequest\<close>, from the settled \<open>axios.post\<close> on: \<open>reply\<close> is the rejection, or
  \<open>response.data\<close>, which \<open>axios\<close> hands over parsed when the body is JSON and as the raw
  string otherwise.
\<close>

definition install_failure :: "js_value \<Rightarrow> js_error" where
  "install_failure data = Error (''Failed to get Firebase installation AuthToken: '' @ to_string data)"

definition installRequest :: "js_error + js_value \<Rightarrow> js_error + js_value" where
  "installRequest reply =
     (case reply of
        Inl e \<Rightarrow> Inl e
      | Inr data \<Rightarrow>
          (case js_get data ''authToken'' of
             Inl e \<Rightarrow> Inl e
           | Inr authToken \<Rightarrow>
               if \<not> truthy authToken then Inl (install_failure data)
               else (case js_get authToken ''token'' of
                       Inl e \<Rightarrow> Inl e
                     | Inr token \<Rightarrow>
                         if \<not> truthy token then Inl (install_failure data)
                         else Inr token)))"

section \<open>RegistrationClient: \<open>AndroidFCM.registerRequest\<close>\<close>

text \<open>The six arguments that \<open>AndroidFCM.register\<close> passes through to its requests.\<close>

record app_identity =
  apiKey :: string
  projectId :: string
  gcmSenderId :: string
  gmsAppId :: string
  androidPackageName :: string
  androidPackageCert :: string

text \<open>The fields of the posted form that depend on the arguments, and the login header.\<close>

record register_post =
  authorization :: string
  device :: string
  app :: string
  cert :: string
  sender :: string
  x_subtype :: string
  installations_auth :: js_value
  gms_app_id :: string

definition register_form :: "string \<Rightarrow> string \<Rightarrow> js_value \<Rightarrow> app_identity \<Rightarrow> register_post" where
  "register_form android_id security_token installationAuthToken ident =
     \<lparr> authorization = ''AidLogin '' @ android_id @ '':'' @ security_token,
       device = android_id,
       app = androidPackageName ident,
       cert = androidPackageCert ident,
       sender = gcmSenderId ident,
       x_subtype = gcmSenderId ident,
       installations_auth = installationAuthToken,
       gms_app_id = gmsAppId ident \<rparr>"

text \<open>
  What one call does to the outside, in order: a request posted to the registration service,
  a line written with \<open>console.warn\<close>, a \<open>waitFor\<close> of so many milliseconds.
\<close>

datatype reg_event = Post register_post | Warn string | WaitFor nat

definition RegistrationError :: js_error where
  "RegistrationError = Error ''GCM register has failed''"

definition warn_failed :: "string \<Rightarrow> string" where
  "warn_failed data = ''Register request has failed with '' @ data"

definition warn_retry :: "nat \<Rightarrow> string" where
  "warn_retry retry = ''Retry... '' @ show_nat (retry + 1)"

text \<open>\<open>registerResponse.data.split("=")[1]\<close>\<close>

definition extract_token :: "string \<Rightarrow> string option" where
  "extract_token data = js_index (split_on CHR ''='' data) 1"

text \<open>
  The registration service is the list of the response bodies it will give, one for each
  request in turn; when the list is used up the request is rejected. The function returns the
  outcome (the token, \<open>None\<close> for \<open>undefined\<close>, or the error thrown) and the events in order.
  The recursion is the source's self-call with \<open>retry + 1\<close> and the same other arguments.
\<close>

fun registerRequest ::
  "string \<Rightarrow> string \<Rightarrow> js_value \<Rightarrow> app_identity \<Rightarrow> nat \<Rightarrow> string list \<Rightarrow>
   (js_error + string option) \<times> reg_event list" where
  "registerRequest android_id security_token installationAuthToken ident retry [] =
     (Inl NetworkError, [Post (register_form android_id security_token installationAuthToken ident)])"
| "registerRequest android_id security_token installationAuthToken ident retry (data # rest) =
     (if str_includes data ''Error'' then
        (if retry \<ge> 5 then
           (Inl RegistrationError,
            [Post (register_form android_id security_token installationAuthToken ident),
             Warn (warn_failed data)])
         else
           (let (r, evs) =
                  registerRequest android_id security_token installationAuthToken ident
                    (retry + 1) rest
            in (r, [Post (register_form android_id security_token installationAuthToken ident),
                    Warn (warn_failed data),
                    Warn (warn_retry retry),
                    WaitFor 1000] @ evs)))
      else (Inr (extract_token data),
            [Post (register_form android_id security_token installationAuthToken ident)]))"





section \<open>\<open>AndroidFCM.register\<close>\<close>

record gcm_credentials =
  androidId :: string
  securityToken :: string

definition opt_string :: "string option \<Rightarrow> js_value" where
  "opt_string t = (case t of None \<Rightarrow> JUndefined | Some s \<Rightarrow> JStr s)"

text \<open>
  \<open>checkIn\<close> is in a module this repository imports; its settled result is an argument here,
  like the replies of the two services.
\<close>

definition register ::
  "app_identity \<Rightarrow> js_error + js_value \<Rightarrow> js_error + gcm_credentials \<Rightarrow> string list \<Rightarrow>
   js_error + js_value" where
  "register ident install_reply checkIn_result register_replies =
     (case installRequest install_reply of
        Inl e \<Rightarrow> Inl e
      | Inr installationAuthToken \<Rightarrow>
          (case checkIn_result of
             Inl e \<Rightarrow> Inl e
           | Inr checkInResponse \<Rightarrow>
               (case fst (registerRequest (androidId checkInResponse)
                            (securityToken checkInResponse) installationAuthToken ident 0
                            register_replies) of
                  Inl e \<Rightarrow> Inl e
                | Inr fcmToken \<Rightarrow>
                    Inr (JObj
                      [(''gcm'', JObj [(''androidId'', JStr (androidId checkInResponse)),
                                       (''securityToken'', JStr (securityToken checkInResponse))]),
                       (''fcm'', JObj [(''token'', opt_string fcmToken)])]))))"

section \<open>CredentialCodec: \<open>parseRustCredsString\<close>\<close>

text \<open>
  The two regular expressions are \<open>\bKEY\b\s*:\s*"?([0-9]+)"?\<close> with \<open>KEY\<close> one of
  \<open>androidId\<close> and \<open>securityToken\<close>. \<open>match_here\<close> is one attempt of the matcher at a
  position: \<open>prev\<close> is the character before the position (\<open>None\<close> at the start of the
  input) and decides the first \<open>\b\<close>; then come the key, the second \<open>\b\<close>, white space, the
  colon, white space, an optional double quote and the longest run of digits, which must not
  be empty and is the captured group. Every greedy choice is the only one that can succeed:
  giving back white space leaves white space where the colon, the quote or a digit has to be,
  giving back the quote leaves the quote where a digit has to be, and the closing \<open>"?\<close> may
  match nothing. \<open>regex_search\<close> is \<open>String.prototype.match\<close>: the first position, from the
  left, where an attempt succeeds.
\<close>

definition is_word_at :: "char option \<Rightarrow> bool" where
  "is_word_at c = (case c of None \<Rightarrow> False | Some x \<Rightarrow> is_word_char x)"

definition word_boundary :: "char option \<Rightarrow> string \<Rightarrow> bool" where
  "word_boundary prev s =
     (is_word_at prev \<noteq> is_word_at (case s of [] \<Rightarrow> None | c # _ \<Rightarrow> Some c))"

definition opt_quote :: "string \<Rightarrow> string" where
  "opt_quote s = (case s of [] \<Rightarrow> [] | c # cs \<Rightarrow> if c = CHR 0x22 then cs else c # cs)"

definition match_num :: "string \<Rightarrow> string option" where
  "match_num s =
     (let ds = takeWhile is_digit (opt_quote s)
      in if ds = [] then None else Some ds)"

definition match_here :: "string \<Rightarrow> char option \<Rightarrow> string \<Rightarrow> string option" where
  "match_here key prev s =
     (if word_boundary prev s \<and> prefix key s then
        (let r1 = drop (length key) s in
         if word_boundary (Some (last key)) r1 then
           (case dropWhile is_space r1 of
              [] \<Rightarrow> None
            | c # r2 \<Rightarrow> if c = CHR '':'' then match_num (dropWhile is_space r2) else None)
         else None)
      else None)"

fun regex_search :: "string \<Rightarrow> char option \<Rightarrow> string \<Rightarrow> string option" where
  "regex_search key prev [] = match_here key prev []"
| "regex_search key prev (c # cs) =
     (case match_here key prev (c # cs) of
        Some d \<Rightarrow> Some d
      | None \<Rightarrow> regex_search key (Some c) cs)"

text \<open>\<open>/^\d+$/.test(s)\<close>\<close>

definition digits_test :: "string \<Rightarrow> bool" where
  "digits_test s \<longleftrightarrow> s \<noteq> [] \<and> list_all is_digit s"

text \<open>
  The three \<open>throw\<close> statements that a string argument can reach, in the order of the source;
  each throws an \<open>Error\<close> with a message of its own. (The first \<open>throw\<close> of the source is for
  an argument that is not a string.)
\<close>

datatype format_error = UnexpectedBraces | MissingKeys | NotOnlyDigits

definition parseRustCredsString :: "string \<Rightarrow> format_error + gcm_credentials" where
  "parseRustCredsString s =
     (let trimmed = trim s in
      if \<not> startsWith trimmed ''{'' \<or> \<not> endsWith trimmed ''}'' then Inl UnexpectedBraces
      else
        (let mAndroid = regex_search ''androidId'' None trimmed;
             mToken = regex_search ''securityToken'' None trimmed
         in case (mAndroid, mToken) of
              (Some a, Some t) \<Rightarrow>
                if \<not> digits_test a \<or> \<not> digits_test t then Inl NotOnlyDigits
                else Inr \<lparr> androidId = a, securityToken = t \<rparr>
            | _ \<Rightarrow> Inl MissingKeys))"


section \<open>PairingServer: \<open>linkSteamWithRustPlus\<close>\<close>

text \<open>
  A request as the handlers see it: the route that \<open>express\<close> matched it to, the parsed form
  body (\<open>None\<close> when there is none) and the parsed query string, both with string values.
\<close>

datatype route = GetRoot | PostSubmitToken | GetCallback | NoRoute

record http_request =
  req_target :: route
  req_body :: "(string \<times> string) list option"
  req_query :: "(string \<times> string) list"

datatype page =
    PairingPage        \<comment> \<open>the instructions and the form\<close>
  | TokenReceived      \<comment> \<open>the text sent after a form submission with a token\<close>
  | TokenMissing       \<comment> \<open>\<open>Token manquant\<close>\<close>
  | AccountLinked      \<comment> \<open>\<open>Steam Account successfully linked ...\<close>\<close>
  | NoTokenInUrl       \<comment> \<open>the page that points back to \<open>/\<close>\<close>
  | NotFound

record http_response =
  resp_status :: nat
  resp_page :: page

text \<open>
  \<open>server\<close> is the module variable: \<open>None\<close> before \<open>app.listen\<close> has returned, then the
  handle, which is listening or closed. \<open>promise\<close> is the value of the session's promise,
  \<open>None\<close> while it is pending.
\<close>

record pairing_state =
  server :: "bool option"
  promise :: "string option"

definition close_server :: "pairing_state \<Rightarrow> pairing_state" where
  "close_server st = (case server st of None \<Rightarrow> st | Some l \<Rightarrow> st\<lparr>server := Some False\<rparr>)"

definition resolve :: "string \<Rightarrow> pairing_state \<Rightarrow> pairing_state" where
  "resolve v st = (case promise st of None \<Rightarrow> st\<lparr>promise := Some v\<rparr> | Some w \<Rightarrow> st)"

definition submit_token_handler ::
  "http_request \<Rightarrow> pairing_state \<Rightarrow> pairing_state \<times> http_response" where
  "submit_token_handler req st =
     (let token = (case req_body req of None \<Rightarrow> None | Some b \<Rightarrow> map_of b ''token'')
      in case token of
           None \<Rightarrow> (st, \<lparr>resp_status = 400, resp_page = TokenMissing\<rparr>)
         | Some t \<Rightarrow>
             if t \<noteq> [] then
               (resolve t (close_server st), \<lparr>resp_status = 200, resp_page = TokenReceived\<rparr>)
             else (st, \<lparr>resp_status = 400, resp_page = TokenMissing\<rparr>))"

definition callback_handler ::
  "http_request \<Rightarrow> pairing_state \<Rightarrow> pairing_state \<times> http_response" where
  "callback_handler req st =
     (let authToken = map_of (req_query req) ''token''
      in case authToken of
           None \<Rightarrow> (st, \<lparr>resp_status = 200, resp_page = NoTokenInUrl\<rparr>)
         | Some t \<Rightarrow>
             if t \<noteq> [] then
               (resolve t (close_server st), \<lparr>resp_status = 200, resp_page = AccountLinked\<rparr>)
             else (st, \<lparr>resp_status = 200, resp_page = NoTokenInUrl\<rparr>))"

definition handle :: "http_request \<Rightarrow> pairing_state \<Rightarrow> pairing_state \<times> http_response" where
  "handle req st =
     (case req_target req of
        GetRoot \<Rightarrow> (st, \<lparr>resp_status = 200, resp_page = PairingPage\<rparr>)
      | PostSubmitToken \<Rightarrow> submit_token_handler req st
      | GetCallback \<Rightarrow> callback_handler req st
      | NoRoute \<Rightarrow> (st, \<lparr>resp_status = 404, resp_page = NotFound\<rparr>))"

text \<open>
  The handlers have no suspension point, so the requests of a session are handled one after
  the other, whatever their arrival times. A request reaches a handler only while the server
  listens; otherwise the connection is refused (\<open>None\<close>). Should a request on a connection
  that was open before the close still reach a handler, the promise, being settled, keeps
  its value (\<open>handle_settled\<close> below).
\<close>

definition listening :: "pairing_state \<Rightarrow> bool" where
  "listening st = (server st = Some True)"

definition deliver ::
  "http_request \<Rightarrow> pairing_state \<Rightarrow> pairing_state \<times> http_response option" where
  "deliver req st =
     (if listening st then (let (st', resp) = handle req st in (st', Some resp))
      else (st, None))"

fun serve :: "http_request list \<Rightarrow> pairing_state \<Rightarrow> pairing_state \<times> http_response option list" where
  "serve [] st = (st, [])"
| "serve (req # reqs) st =
     (let (st1, resp) = deliver req st;
          (st2, resps) = serve reqs st1
      in (st2, resp # resps))"

definition started :: pairing_state where
  "started = \<lparr>server = Some True, promise = None\<rparr>"


text \<open>Readings of a request and of a response, used to state the properties.\<close>

definition completion_token :: "http_request \<Rightarrow> string option" where
  "completion_token req =
     (case req_target req of
        PostSubmitToken \<Rightarrow>
          (case req_body req of
             None \<Rightarrow> None
           | Some b \<Rightarrow> (case map_of b ''token'' of
                          None \<Rightarrow> None
                        | Some t \<Rightarrow> if t \<noteq> [] then Some t else None))
      | GetCallback \<Rightarrow>
          (case map_of (req_query req) ''token'' of
             None \<Rightarrow> None
           | Some t \<Rightarrow> if t \<noteq> [] then Some t else None)
      | _ \<Rightarrow> None)"

fun first_completion :: "http_request list \<Rightarrow> string option" where
  "first_completion [] = None"
| "first_completion (req # reqs) =
     (case completion_token req of Some t \<Rightarrow> Some t | None \<Rightarrow> first_completion reqs)"

definition is_completion :: "http_response option \<Rightarrow> bool" where
  "is_completion r =
     (case r of
        None \<Rightarrow> False
      | Some resp \<Rightarrow> resp_page resp = TokenReceived \<or> resp_page resp = AccountLinked)"

section \<open>Persisted configuration: \<open>readConfig\<close> and \<open>updateConfig\<close>\<close>




section \<open>RegistrationOrchestrator: \<open>fcmRegister\<close>\<close>



text \<open>
  Everything outside the process during one run: the settled results of the calls to the
  services, the requests that reach the pairing server, and the working directory's file.
\<close>

record services =
  install_reply :: "js_error + js_value"
  checkIn_result :: "js_error + gcm_credentials"
  register_replies :: "string list"
  expo_reply :: "js_error + js_value"
  pairing_traffic :: "http_request list"
  companion_reply :: "js_error + js_value"
  cwd_file :: string






text \<open>
  The text of \<open>JSON.stringify(object, null, 2)\<close>, written out for the outermost object:
  every member starts on a line of its own behind two spaces.
\<close>

definition object_text :: "js_props \<Rightarrow> string" where
  "object_text props =
     (let members = serialize_members ''  '' ''  '' props
      in if members = [] then ''{}''
         else ''{'' @ [CHR 0x0A] @ ''  '' @ join ('','' @ [CHR 0x0A] @ ''  '') members @
              [CHR 0x0A] @ ''}'')"



section \<open>Properties of the string operations\<close>






section \<open>The retry policy of \<open>registerRequest\<close>\<close>

















section \<open>The installation identifier\<close>

lemma suc_suc_minus_2: "2 \<le> n \<Longrightarrow> Suc (Suc (n - 2)) = n"
  by simp

lemma byte_no_high_bit: "\<not> bit (b :: byte) (8 + n)"
  using bit_imp_le_length[of b "8 + n"] by auto

lemma first_byte_roundtrip:
  "push_bit 2 (ucast (ucast (drop_bit 2 a) :: sextet)) OR
   ucast (drop_bit 4 (push_bit 4 (ucast a) OR ucast (drop_bit 4 b) :: sextet)) = (a :: byte)"
  for b :: byte
  by (rule bit_word_eqI) (auto simp: bit_simps suc_suc_minus_2 byte_no_high_bit not_less)

lemma second_byte_roundtrip:
  "push_bit 4 (ucast (push_bit 4 (ucast a) OR ucast (drop_bit 4 b) :: sextet)) OR
   ucast (drop_bit 2 (push_bit 2 (ucast b) OR ucast (drop_bit 6 c) :: sextet)) = (b :: byte)"
  for a :: byte and c :: byte
  by (rule bit_word_eqI) (auto simp: bit_simps suc_suc_minus_2 byte_no_high_bit not_less)

lemma third_byte_roundtrip:
  "push_bit 6 (ucast (push_bit 2 (ucast b) OR ucast (drop_bit 6 c) :: sextet)) OR
   ucast (ucast c :: sextet) = (c :: byte)"
  for b :: byte
  by (rule bit_word_eqI) (auto simp: bit_simps)

lemma first_byte_roundtrip_tail:
  "push_bit 2 (ucast (ucast (drop_bit 2 a) :: sextet)) OR
   ucast (drop_bit 4 (push_bit 4 (ucast a) :: sextet)) = (a :: byte)"
  by (rule bit_word_eqI) (auto simp: bit_simps suc_suc_minus_2 byte_no_high_bit not_less)

lemma second_byte_roundtrip_tail:
  "push_bit 4 (ucast (push_bit 4 (ucast a) OR ucast (drop_bit 4 b) :: sextet)) OR
   ucast (drop_bit 2 (push_bit 2 (ucast b) :: sextet)) = (b :: byte)"
  for a :: byte
  by (rule bit_word_eqI) (auto simp: bit_simps suc_suc_minus_2 byte_no_high_bit not_less)

lemma fid_high_nibble: "drop_bit 4 (0x70 OR (x AND 0x0F)) = (7 :: byte)"
  by (rule bit_word_eqI) (auto simp: bit_simps)

lemma fid_low_nibble: "(0x70 OR (x AND 0x0F)) AND 0x0F = x AND (0x0F :: byte)"
proof -
  have m: "(0x0F :: byte) = mask 4" by (simp add: mask_eq_exp_minus_1)
  have p: "(0x70 :: byte) = push_bit 4 (mask 3)" by (simp add: mask_eq_exp_minus_1)
  show ?thesis unfolding m p
    by (rule bit_word_eqI) (auto simp: bit_simps)
qed

lemma b64_alphabet_distinct: "distinct b64_alphabet"
  by (simp add: b64_alphabet_def)

lemma b64_alphabet_length: "length b64_alphabet = 64"
  by (simp add: b64_alphabet_def)

lemma b64_alphabet_no_pad: "CHR ''='' \<notin> set b64_alphabet"
  by (simp add: b64_alphabet_def)

lemma index_of_nth: "distinct xs \<Longrightarrow> n < length xs \<Longrightarrow> index_of (xs ! n) xs = Some n"
proof (induction xs arbitrary: n)
  case Nil
  then show ?case by simp
next
  case (Cons x xs)
  then show ?case by (cases n) auto
qed

lemma unat_sextet: "unat (s :: sextet) < 64"
  using unsigned_less[of s, where 'a = nat] by simp

lemma b64_index_char: "b64_index (b64_char s) = Some s"
  using index_of_nth[OF b64_alphabet_distinct, of "unat s"] unat_sextet[of s]
  by (simp add: b64_index_def b64_char_def b64_alphabet_length)

lemma b64_char_no_pad: "b64_char s \<noteq> CHR ''=''"
proof -
  have "unat s < length b64_alphabet" using unat_sextet[of s] by (simp add: b64_alphabet_length)
  then have "b64_alphabet ! unat s \<in> set b64_alphabet" by (rule nth_mem)
  then show ?thesis using b64_alphabet_no_pad by (auto simp: b64_char_def)
qed

lemma encode_unpadded:
  "filter (\<lambda>c. c \<noteq> CHR ''='') (base64_encode bs) = map b64_char (to_sextets bs)"
  by (induction bs rule: base64_encode.induct) (simp_all add: b64_char_no_pad)

lemma takeWhile_b64: "takeWhile (\<lambda>c. c \<noteq> CHR ''='') (map b64_char ss) = map b64_char ss"
  by (induction ss) (simp_all add: b64_char_no_pad)

lemma sextets_of_chars: "sextets_of (map b64_char ss) = Some ss"
  by (induction ss) (simp_all add: b64_index_char)

lemma bytes_of_to_sextets: "bytes_of_sextets (to_sextets bs) = bs"
proof (induction bs rule: to_sextets.induct)
  case 1
  show ?case by simp
next
  case (2 a)
  show ?case
    by (simp only: to_sextets.simps bytes_of_sextets.simps first_byte_roundtrip_tail)
next
  case (3 a b)
  show ?case
    by (simp only: to_sextets.simps bytes_of_sextets.simps first_byte_roundtrip
        second_byte_roundtrip_tail)
next
  case (4 a b c rest)
  then show ?case
    by (simp only: to_sextets.simps bytes_of_sextets.simps append.simps first_byte_roundtrip
        second_byte_roundtrip third_byte_roundtrip)
qed

lemma base64_roundtrip:
  "base64_decode (filter (\<lambda>c. c \<noteq> CHR ''='') (base64_encode bs)) = Some bs"
  by (simp add: base64_decode_def encode_unpadded takeWhile_b64 sextets_of_chars
      bytes_of_to_sextets)

lemma fid_no_pad: "CHR ''='' \<notin> set (generateFirebaseFID buf)"
  by (simp add: generateFirebaseFID_def)

lemma fid_example:
  "generateFirebaseFID [0xff, 1, 2, 3, 4, 5, 6, 7, 8, 9, 10, 11, 12, 13, 14, 15, 16] =
     ''fwECAwQFBgcICQoLDA0ODxA''"
  by (simp add: generateFirebaseFID_def b64_char_def b64_alphabet_def)

text \<open>
  C8. For every draw of 17 random bytes, the identifier decodes from base64 to 17 bytes: the
  high four bits of the first are \<open>0111\<close>, its low four bits are those of the first random
  byte, the other sixteen bytes are the random ones; and the identifier has no \<open>=\<close>.
\<close>

theorem generateFirebaseFID_shape:
  assumes "length buf = 17"
  shows "(case base64_decode (generateFirebaseFID buf) of
            None \<Rightarrow> False
          | Some bs \<Rightarrow>
              length bs = 17 \<and> drop_bit 4 (bs ! 0) = 0b0111 \<and>
              bs ! 0 AND 0x0F = buf ! 0 AND 0x0F \<and> tl bs = tl buf) \<and>
         CHR ''='' \<notin> set (generateFirebaseFID buf)"
proof -
  define bs where "bs = buf[0 := 0x70 OR (buf ! 0 AND 0x0F)]"
  have d: "base64_decode (generateFirebaseFID buf) = Some bs"
    by (simp add: generateFirebaseFID_def bs_def base64_roundtrip)
  have l: "length bs = 17" using assms by (simp add: bs_def)
  have z: "bs ! 0 = 0x70 OR (buf ! 0 AND 0x0F)" using assms by (simp add: bs_def)
  have t: "tl bs = tl buf" by (cases buf) (simp_all add: bs_def)
  show ?thesis using d l t by (simp add: z fid_high_nibble fid_low_nibble fid_no_pad)
qed

theorem generateFirebaseFID_shape_witness:
  "length [0xff, 1, 2, 3, 4, 5, 6, 7, 8, 9, 10, 11, 12, 13, 14, 15, 16 :: byte] = 17 \<and>
   base64_decode ''fwECAwQFBgcICQoLDA0ODxA'' \<noteq> None \<and>
   CHR ''='' \<notin> set ''fwECAwQFBgcICQoLDA0ODxA''"
  using generateFirebaseFID_shape[of "[0xff, 1, 2, 3, 4, 5, 6, 7, 8, 9, 10, 11, 12, 13, 14, 15, 16]"]
  unfolding fid_example by (auto split: option.splits)

section \<open>The failure of \<open>installRequest\<close>\<close>

lemma installRequest_string_body:
  "installRequest (Inr (JStr raw)) =
     Inl (Error (''Failed to get Firebase installation AuthToken: '' @ raw))"
  by (simp add: installRequest_def install_failure_def)

lemma installRequest_object_without_token:
  assumes "map_of kvs ''authToken'' = None"
  shows "installRequest (Inr (JObj kvs)) =
           Inl (Error ''Failed to get Firebase installation AuthToken: [object Object]'')"
  using assms by (simp add: installRequest_def install_failure_def)

lemma installRequest_null_body: "installRequest (Inr JNull) = Inl TypeError"
  by (simp add: installRequest_def)

text \<open>
  C9. A reply whose body is the JSON object \<open>{}\<close> reaches \<open>installRequest\<close> as the empty
  object. It has no \<open>authToken\<close>, and the error thrown has the message with
  \<open>[object Object]\<close> in the place where the body was meant to be.
\<close>

theorem installRequest_object_body_message:
  "installRequest (Inr (JObj [])) =
     Inl (Error ''Failed to get Firebase installation AuthToken: [object Object]'') \<and>
   \<not> str_includes ''Failed to get Firebase installation AuthToken: [object Object]'' ''{}''"
  by (simp add: installRequest_def install_failure_def)

section \<open>The pairing server\<close>

lemma deliver_closed: "\<not> listening st \<Longrightarrow> deliver req st = (st, None)"
  by (simp add: deliver_def)

lemma serve_closed: "\<not> listening st \<Longrightarrow> serve reqs st = (st, replicate (length reqs) None)"
  by (induction reqs) (simp_all add: deliver_closed)

lemma handle_completion:
  assumes "completion_token req = Some t"
  shows "\<exists>resp. handle req st = (resolve t (close_server st), resp) \<and> is_completion (Some resp)"
  using assms
  by (auto simp: completion_token_def handle_def submit_token_handler_def callback_handler_def
      is_completion_def split: route.splits option.splits if_splits)

lemma handle_other:
  assumes "completion_token req = None"
  shows "\<exists>resp. handle req st = (st, resp) \<and> \<not> is_completion (Some resp)"
  using assms
  by (auto simp: completion_token_def handle_def submit_token_handler_def callback_handler_def
      is_completion_def split: route.splits option.splits if_splits)

lemma handle_settled:
  "promise st \<noteq> None \<Longrightarrow> promise (fst (handle req st)) = promise st"
  by (auto simp: handle_def submit_token_handler_def callback_handler_def resolve_def
      close_server_def split: route.splits option.splits)

lemma deliver_completion:
  assumes "listening st" and "promise st = None" and "completion_token req = Some t"
  shows "\<exists>resp. deliver req st = (st\<lparr>server := Some False, promise := Some t\<rparr>, Some resp) \<and>
           is_completion (Some resp)"
proof -
  obtain resp where h: "handle req st = (resolve t (close_server st), resp)"
    and c: "is_completion (Some resp)"
    using handle_completion[OF assms(3)] by blast
  have "resolve t (close_server st) = st\<lparr>server := Some False, promise := Some t\<rparr>"
    using assms(1,2) by (simp add: resolve_def close_server_def listening_def)
  then show ?thesis using h c assms(1) by (simp add: deliver_def)
qed

lemma deliver_other:
  assumes "listening st" and "completion_token req = None"
  shows "\<exists>resp. deliver req st = (st, Some resp) \<and> \<not> is_completion (Some resp)"
  using handle_other[OF assms(2), of st] assms(1) by (auto simp: deliver_def)

lemma serve_listening:
  assumes "listening st" and "promise st = None"
  shows "promise (fst (serve reqs st)) = first_completion reqs \<and>
         (listening (fst (serve reqs st)) \<longleftrightarrow> first_completion reqs = None) \<and>
         length (filter is_completion (snd (serve reqs st))) =
           (if first_completion reqs = None then 0 else 1) \<and>
         length (snd (serve reqs st)) = length reqs"
  using assms
proof (induction reqs arbitrary: st)
  case Nil
  then show ?case by simp
next
  case (Cons req reqs)
  show ?case
  proof (cases "completion_token req")
    case None
    obtain resp where d: "deliver req st = (st, Some resp)" and n: "\<not> is_completion (Some resp)"
      using deliver_other[OF Cons.prems(1) None] by blast
    show ?thesis using Cons.IH[OF Cons.prems] d n None by (simp add: case_prod_unfold Let_def)
  next
    case (Some t)
    define st' where "st' = st\<lparr>server := Some False, promise := Some t\<rparr>"
    obtain resp where d: "deliver req st = (st', Some resp)" and c: "is_completion (Some resp)"
      using deliver_completion[OF Cons.prems Some] unfolding st'_def by blast
    have nl: "\<not> listening st'" by (simp add: st'_def listening_def)
    have "serve reqs st' = (st', replicate (length reqs) None)"
      using nl by (rule serve_closed)
    then show ?thesis using d c Some nl
      by (simp add: case_prod_unfold Let_def st'_def is_completion_def)
  qed
qed



lemma started_listening: "listening started" "promise started = None"
  by (simp_all add: started_def listening_def)


lemma listening_pending:
  assumes "serve reqs started = (st, resps)" and "listening st"
  shows "promise st = None"
  using serve_listening[OF started_listening, of reqs] assms by simp


text \<open>
  C3, as the code has it. While the server listens and the session is pending: a form
  submission with a non-empty \<open>token\<close> settles the promise with that token and closes the
  server; one whose \<open>token\<close> is absent or empty is answered with status 400 and changes
  nothing; a \<open>/callback\<close> with a non-empty \<open>token\<close> parameter settles and closes in the same
  way; a \<open>/callback\<close> whose \<open>token\<close> parameter is absent or empty is answered with the page
  that points back to \<open>/\<close> and changes nothing.
\<close>

theorem pairing_routes:
  assumes "listening st" and "promise st = None"
  shows
    "(req_target req = PostSubmitToken \<longrightarrow> req_body req = Some b \<longrightarrow>
        map_of b ''token'' = Some t \<longrightarrow> t \<noteq> [] \<longrightarrow>
        deliver req st =
          (st\<lparr>server := Some False, promise := Some t\<rparr>,
           Some \<lparr>resp_status = 200, resp_page = TokenReceived\<rparr>)) \<and>
     (req_target req = PostSubmitToken \<longrightarrow>
        (req_body req = None \<or>
         (\<exists>f. req_body req = Some f \<and> (map_of f ''token'' = None \<or> map_of f ''token'' = Some []))) \<longrightarrow>
        deliver req st = (st, Some \<lparr>resp_status = 400, resp_page = TokenMissing\<rparr>)) \<and>
     (req_target req = GetCallback \<longrightarrow> map_of (req_query req) ''token'' = Some u \<longrightarrow> u \<noteq> [] \<longrightarrow>
        deliver req st =
          (st\<lparr>server := Some False, promise := Some u\<rparr>,
           Some \<lparr>resp_status = 200, resp_page = AccountLinked\<rparr>)) \<and>
     (req_target req = GetCallback \<longrightarrow>
        (map_of (req_query req) ''token'' = None \<or> map_of (req_query req) ''token'' = Some []) \<longrightarrow>
        deliver req st = (st, Some \<lparr>resp_status = 200, resp_page = NoTokenInUrl\<rparr>))"
  using assms
  by (auto simp: deliver_def handle_def submit_token_handler_def callback_handler_def
      resolve_def close_server_def listening_def)

theorem pairing_routes_witness:
  "deliver \<lparr>req_target = PostSubmitToken, req_body = Some [(''token'', ''abc'')], req_query = []\<rparr>
     started =
     (\<lparr>server = Some False, promise = Some ''abc''\<rparr>,
      Some \<lparr>resp_status = 200, resp_page = TokenReceived\<rparr>) \<and>
   deliver \<lparr>req_target = PostSubmitToken, req_body = Some [(''token'', [])], req_query = []\<rparr>
     started = (started, Some \<lparr>resp_status = 400, resp_page = TokenMissing\<rparr>) \<and>
   deliver \<lparr>req_target = GetCallback, req_body = None, req_query = [(''token'', ''xyz'')]\<rparr>
     started =
     (\<lparr>server = Some False, promise = Some ''xyz''\<rparr>,
      Some \<lparr>resp_status = 200, resp_page = AccountLinked\<rparr>) \<and>
   deliver \<lparr>req_target = GetCallback, req_body = None, req_query = []\<rparr> started =
     (started, Some \<lparr>resp_status = 200, resp_page = NoTokenInUrl\<rparr>)"
  using
    pairing_routes[OF started_listening,
      of "\<lparr>req_target = PostSubmitToken, req_body = Some [(''token'', ''abc'')], req_query = []\<rparr>"
         "[(''token'', ''abc'')]" "''abc''" "''x''"]
    pairing_routes[OF started_listening,
      of "\<lparr>req_target = PostSubmitToken, req_body = Some [(''token'', [])], req_query = []\<rparr>"
         "[]" "''x''" "''x''"]
    pairing_routes[OF started_listening,
      of "\<lparr>req_target = GetCallback, req_body = None, req_query = [(''token'', ''xyz'')]\<rparr>"
         "[]" "''x''" "''xyz''"]
    pairing_routes[OF started_listening,
      of "\<lparr>req_target = GetCallback, req_body = None, req_query = []\<rparr>" "[]" "''x''" "''x''"]
  by (simp add: started_def)

theorem callback_empty_token_counterexample:
  "map_of (req_query \<lparr>req_target = GetCallback, req_body = None, req_query = [(''token'', [])]\<rparr>)
     ''token'' = Some [] \<and>
   deliver \<lparr>req_target = GetCallback, req_body = None, req_query = [(''token'', [])]\<rparr> started =
     (started, Some \<lparr>resp_status = 200, resp_page = NoTokenInUrl\<rparr>) \<and>
   listening started \<and> promise started = None"
  by (simp add: deliver_def handle_def callback_handler_def listening_def started_def)



section \<open>The persisted configuration\<close>










lemma object_text_example:
  "object_text [(''expo_push_token'', JStr ''EXPO1''), (''fcm'', JObj [(''token'', JStr ''PUSH1'')])] =
     ''{'' @ [CHR 0x0A] @
     ''  '' @ [CHR 0x22] @ ''expo_push_token'' @ [CHR 0x22] @ '': '' @
       [CHR 0x22] @ ''EXPO1'' @ [CHR 0x22] @ '','' @ [CHR 0x0A] @
     ''  '' @ [CHR 0x22] @ ''fcm'' @ [CHR 0x22] @ '': {'' @ [CHR 0x0A] @
     ''    '' @ [CHR 0x22] @ ''token'' @ [CHR 0x22] @ '': '' @
       [CHR 0x22] @ ''PUSH1'' @ [CHR 0x22] @ [CHR 0x0A] @
     ''  }'' @ [CHR 0x0A] @
     ''}''"
  by (simp add: object_text_def quote_json_def quote_char_def)






section \<open>The whole registration run\<close>




section \<open>The credential string\<close>

lemma not_space_simps [simp]:
  "\<not> is_space CHR '':''" "\<not> is_space CHR '',''" "\<not> is_space CHR ''{''" "\<not> is_space CHR ''}''"
  "\<not> is_space (CHR 0x22)"
  by (simp_all add: is_space_def)

lemma not_digit_simps [simp]:
  "\<not> is_digit CHR '':''" "\<not> is_digit CHR '',''" "\<not> is_digit CHR ''{''" "\<not> is_digit CHR ''}''"
  "\<not> is_digit (CHR 0x22)"
  by (simp_all add: is_digit_def)


lemma match_num_digits: "match_num s = Some d \<Longrightarrow> digits_test d"
  by (auto simp: match_num_def digits_test_def Let_def list_all_iff split: if_splits dest: set_takeWhileD)


lemma match_here_digits: "match_here key prev s = Some d \<Longrightarrow> digits_test d"
  by (auto simp: match_here_def Let_def split: if_splits list.splits dest: match_num_digits)

lemma regex_search_digits: "regex_search key prev s = Some d \<Longrightarrow> digits_test d"
  by (induction s arbitrary: prev) (auto split: option.splits dest: match_here_digits)
















lemma colon_not_word [simp]: "\<not> is_word_char CHR '':''"
  by (simp add: is_word_char_def)



lemma brace_not_word [simp]: "\<not> is_word_char CHR ''{''" "\<not> is_word_char CHR '',''"
  by (simp_all add: is_word_char_def)
















lemma parse_never_NotOnlyDigits: "parseRustCredsString s \<noteq> Inl NotOnlyDigits"
  by (auto simp: parseRustCredsString_def Let_def split: option.splits dest: regex_search_digits)




end
